theory Spec2Isabelle
  imports Main "HOL-Library.Word"
begin

section \<open>The locked job of gue (job.go) and its finalization operations\<close>

text \<open>
  This theory embeds \<^verbatim>\<open>job.go\<close>: the in-memory \<^verbatim>\<open>Job\<close> struct and its methods
  \<^verbatim>\<open>Tx\<close>, \<^verbatim>\<open>Delete\<close>, \<^verbatim>\<open>Finished\<close>, \<^verbatim>\<open>Migrate\<close>, \<^verbatim>\<open>Done\<close> and \<^verbatim>\<open>Error\<close>.
  The methods mutate the struct and talk to a database transaction through the
  \<^verbatim>\<open>adapter.Tx\<close> interface. In the model
  \<^item> the struct is a record that every method returns updated;
  \<^item> the transaction is a parameter: a \<open>driver\<close> gives the answers of \<^verbatim>\<open>Exec\<close> and
    \<^verbatim>\<open>Commit\<close> over a connection state of any type;
  \<^item> every call on the transaction, with its answer, and every operation on the job's
    mutex is appended to a trace, so that what a method did is observable;
  \<^item> a call through the nil transaction is the outcome \<open>Panic\<close>;
  \<^item> \<^verbatim>\<open>time.Now()\<close> is the argument \<open>clock\<close> of the two methods that read it.
\<close>

subsection \<open>Values of the standard library\<close>

text \<open>
  A \<^verbatim>\<open>time.Time\<close> is an instant, counted in nanoseconds from Go's zero time on an
  unbounded line (so the zero \<^verbatim>\<open>time.Time{}\<close> is 0), and a \<^verbatim>\<open>time.Duration\<close> a number of
  nanoseconds. \<^verbatim>\<open>Time.Add\<close> is addition (Go saturates
  only where the seconds since year 1 leave 64 bits, which no clock reading plus a 64-bit
  duration does) and \<^verbatim>\<open>Time.UTC\<close> changes the location, not the instant.
\<close>

type_synonym time = int
type_synonym Duration = int

definition Add :: "time \<Rightarrow> Duration \<Rightarrow> time" where
  "Add t d = t + d"

definition UTC :: "time \<Rightarrow> time" where
  "UTC t = t"

text \<open>\<^verbatim>\<open>sql.NullTime\<close> and \<^verbatim>\<open>pgtype.Text\<close>, the two nullable column values of the struct.\<close>

record NullTime =
  Time :: time
  Valid :: bool

datatype Status = Undefined | Null | Present

record Text =
  String :: string
  Status :: Status

text \<open>
  Errors are values with a message; \<^verbatim>\<open>fmt.Errorf\<close> with the verb \<^verbatim>\<open>%w\<close> builds an error
  that has its own message and wraps another error.
\<close>

datatype error = Err string | WrapError string error

fun Error_text :: "error \<Rightarrow> string" where
  "Error_text (Err m) = m"
| "Error_text (WrapError m e) = m"

fun Unwrap :: "error \<Rightarrow> error option" where
  "Unwrap (Err m) = None"
| "Unwrap (WrapError m e) = Some e"

text \<open>The verb \<^verbatim>\<open>%v\<close> on an error value: its message, or \<^verbatim>\<open><nil>\<close> for the nil error.\<close>

fun fmt_v :: "error option \<Rightarrow> string" where
  "fmt_v None = ''<nil>''"
| "fmt_v (Some e) = Error_text e"

subsection \<open>The transaction\<close>

text \<open>
  The four statements that \<^verbatim>\<open>job.go\<close> executes, each with its arguments in the order
  of the placeholders \<^verbatim>\<open>$1, $2, ...\<close>:
  \<^item> \<open>DeleteJob\<close>: \<^verbatim>\<open>DELETE FROM gue_jobs WHERE job_id = $1\<close>
  \<^item> \<open>SetFinishedAt\<close>: \<^verbatim>\<open>UPDATE gue_jobs SET finished_at = $1 WHERE job_id = $2\<close>
  \<^item> \<open>InsertFinished\<close>: \<^verbatim>\<open>INSERT INTO gue_jobs_finished (job_id, job_type, queue, args,
    priority, run_at, error_count, last_error, created_at, updated_at, finished_at)
    VALUES ($1, ..., $11)\<close>
  \<^item> \<open>UpdateError\<close>: \<^verbatim>\<open>UPDATE gue_jobs SET error_count = $1, run_at = $2, last_error = $3,
    updated_at = $4 WHERE job_id = $5\<close>
\<close>

datatype stmt =
    DeleteJob "64 word"
  | SetFinishedAt time "64 word"
  | InsertFinished "64 word" string string "8 word list" "16 word" time "32 word" Text
      time time time
  | UpdateError "32 word" time string time "64 word"

text \<open>
  The trace: mutex operations of the job and calls on its transaction with the error
  each call returned (\<open>None\<close> is Go's nil). \<^verbatim>\<open>job.go\<close> never calls \<^verbatim>\<open>Rollback\<close>;
  the event is there so that its absence can be stated. A driver answers the two calls
  that \<^verbatim>\<open>job.go\<close> makes, \<^verbatim>\<open>Exec\<close> and \<^verbatim>\<open>Commit\<close>, from the state of the connection
  and returns the new state; the context argument is part of that state.
\<close>

datatype event =
    MuLock
  | MuUnlock
  | TxExec stmt "error option"
  | TxCommit "error option"
  | TxRollback "error option"

record 'c driver =
  Exec :: "stmt \<Rightarrow> 'c \<Rightarrow> error option \<times> 'c"
  Commit :: "'c \<Rightarrow> error option \<times> 'c"

record 'c world =
  trace :: "event list"
  conn :: 'c

definition emit :: "event \<Rightarrow> 'c world \<Rightarrow> 'c world" where
  "emit e w = w\<lparr>trace := trace w @ [e]\<rparr>"

definition tx_Exec :: "'c driver \<Rightarrow> stmt \<Rightarrow> 'c world \<Rightarrow> error option \<times> 'c world" where
  "tx_Exec drv s w =
     (case Exec drv s (conn w) of
        (err, c) \<Rightarrow> (err, emit (TxExec s err) (w\<lparr>conn := c\<rparr>)))"

definition tx_Commit :: "'c driver \<Rightarrow> 'c world \<Rightarrow> error option \<times> 'c world" where
  "tx_Commit drv w =
     (case Commit drv (conn w) of
        (err, c) \<Rightarrow> (err, emit (TxCommit err) (w\<lparr>conn := c\<rparr>)))"

subsection \<open>The Job struct\<close>

type_synonym Backoff = "int \<Rightarrow> Duration"
type_synonym Tx = nat
type_synonym ConnPool = nat

text \<open>
  \<open>tx\<close> and \<open>pool\<close> are interface values: \<open>None\<close> is nil, \<open>Some h\<close> a handle of the
  transaction (the pool) the job was locked with. The mutex \<open>mu\<close> has no field: its
  state is read off the trace.
\<close>

record Job =
  ID :: "64 word"
  Queue :: string
  Priority :: "16 word"
  RunAt :: time
  Type :: string
  Args :: "8 word list"
  ErrorCount :: "32 word"
  LastError :: Text
  CreatedAt :: time
  UpdatedAt :: NullTime
  FinishedAt :: NullTime
  finished :: bool
  deleted :: bool
  pool :: "ConnPool option"
  tx :: "Tx option"
  backoff :: Backoff

datatype 'a outcome = Return 'a | Panic

subsection \<open>The methods\<close>

definition Tx :: "Job \<Rightarrow> 'c world \<Rightarrow> Tx option \<times> 'c world" where
  "Tx j w0 = (let w = emit MuLock w0 in (tx j, emit MuUnlock w))"

definition Delete ::
  "'c driver \<Rightarrow> Job \<Rightarrow> 'c world \<Rightarrow> error option outcome \<times> Job \<times> 'c world" where
  "Delete drv j w0 =
     (let w = emit MuLock w0 in
      if deleted j then (Return None, j, emit MuUnlock w)
      else
        (case tx j of
           None \<Rightarrow> (Panic, j, emit MuUnlock w)
         | Some t \<Rightarrow>
             (case tx_Exec drv (DeleteJob (ID j)) w of
                (Some err, w') \<Rightarrow> (Return (Some err), j, emit MuUnlock w')
              | (None, w') \<Rightarrow> (Return None, j\<lparr>deleted := True\<rparr>, emit MuUnlock w'))))"

definition Finished ::
  "'c driver \<Rightarrow> time \<Rightarrow> Job \<Rightarrow> 'c world \<Rightarrow> error option outcome \<times> Job \<times> 'c world" where
  "Finished drv clock j w0 =
     (let w = emit MuLock w0 in
      if finished j then (Return None, j, emit MuUnlock w)
      else
        (let now = UTC clock in
         case tx j of
           None \<Rightarrow> (Panic, j, emit MuUnlock w)
         | Some t \<Rightarrow>
             (case tx_Exec drv (SetFinishedAt now (ID j)) w of
                (Some err, w') \<Rightarrow> (Return (Some err), j, emit MuUnlock w')
              | (None, w') \<Rightarrow>
                  (Return None,
                   j\<lparr>FinishedAt := \<lparr>Time = now, Valid = True\<rparr>, finished := True\<rparr>,
                   emit MuUnlock w'))))"

definition Migrate ::
  "'c driver \<Rightarrow> Job \<Rightarrow> 'c world \<Rightarrow> error option outcome \<times> Job \<times> 'c world" where
  "Migrate drv j w0 =
     (let w = emit MuLock w0 in
      if \<not> finished j then (Return None, j, emit MuUnlock w)
      else
        (case tx j of
           None \<Rightarrow> (Panic, j, emit MuUnlock w)
         | Some t \<Rightarrow>
             (case tx_Exec drv
                     (InsertFinished (ID j) (Type j) (Queue j) (Args j) (Priority j) (RunAt j)
                        (ErrorCount j) (LastError j) (CreatedAt j)
                        (UTC (Time (UpdatedAt j))) (UTC (Time (FinishedAt j)))) w of
                (Some err, w') \<Rightarrow> (Return (Some err), j, emit MuUnlock w')
              | (None, w') \<Rightarrow> (Return None, j, emit MuUnlock w'))))"

definition Done :: "'c driver \<Rightarrow> Job \<Rightarrow> 'c world \<Rightarrow> error option \<times> Job \<times> 'c world" where
  "Done drv j w0 =
     (let w = emit MuLock w0 in
      if tx j = None \<or> pool j = None then (None, j, emit MuUnlock w)
      else
        (case tx_Commit drv w of
           (Some err, w') \<Rightarrow> (Some err, j, emit MuUnlock w')
         | (None, w') \<Rightarrow> (None, j\<lparr>pool := None, tx := None\<rparr>, emit MuUnlock w')))"

text \<open>
  The error that the deferred function of \<^verbatim>\<open>Error\<close> builds when \<^verbatim>\<open>Done\<close> fails:
  \<^verbatim>\<open>fmt.Errorf("failed to mark job as done (original error: %v): %w", err, doneErr)\<close>.
\<close>

definition Errorf_done :: "error option \<Rightarrow> error \<Rightarrow> error" where
  "Errorf_done err doneErr =
     WrapError (''failed to mark job as done (original error: '' @ fmt_v err @ ''): ''
                @ Error_text doneErr) doneErr"

text \<open>
  \<^verbatim>\<open>Error\<close> takes no lock of its own. Its body computes the new error count in 32 bits,
  converts it to \<^verbatim>\<open>int\<close> (\<open>sint\<close>) for the backoff, and executes the update on \<open>j.tx\<close>;
  the deferred function then runs \<open>Done\<close>, also when the body panicked, and replaces the
  returned error when \<open>Done\<close> failed.
\<close>

definition Error ::
  "'c driver \<Rightarrow> time \<Rightarrow> string \<Rightarrow> Job \<Rightarrow> 'c world \<Rightarrow> error option outcome \<times> Job \<times> 'c world"
  where
  "Error drv clock msg j w =
     (let errorCount = ErrorCount j + 1;
          now = UTC clock;
          newRunAt = Add now (backoff j (sint errorCount));
          body = (case tx j of
                    None \<Rightarrow> (Panic, w)
                  | Some t \<Rightarrow>
                      (case tx_Exec drv (UpdateError errorCount newRunAt msg now (ID j)) w of
                         (err, w') \<Rightarrow> (Return err, w')))
      in case body of
           (r, w1) \<Rightarrow>
             (case Done drv j w1 of
                (doneErr, j', w2) \<Rightarrow>
                  (case r of
                     Panic \<Rightarrow> (Panic, j', w2)
                   | Return err \<Rightarrow>
                       (case doneErr of
                          None \<Rightarrow> (Return err, j', w2)
                        | Some de \<Rightarrow> (Return (Some (Errorf_done err de)), j', w2)))))"

subsection \<open>A reference transaction: the two tables of schema.sql\<close>

text \<open>
  The methods are defined over any driver. To say what their statements do to rows, one
  driver is fixed here: a transaction on the tables \<^verbatim>\<open>gue_jobs\<close> and
  \<^verbatim>\<open>gue_jobs_finished\<close> of \<^verbatim>\<open>schema.sql\<close>, both keyed by \<^verbatim>\<open>job_id\<close> (the primary
  key), with the nullable columns \<^verbatim>\<open>finished_at\<close>, \<^verbatim>\<open>last_error\<close> and \<^verbatim>\<open>updated_at\<close> as
  options. \<open>faults\<close> scripts the failures of the connection: the head is the answer to the
  next call, \<open>Some e\<close> for a call that fails with \<open>e\<close> and has no effect. The resolution
  of \<^verbatim>\<open>timestamptz\<close> is not modelled.
\<close>

record row =
  priority :: "16 word"
  job_type :: string
  queue :: string
  args :: "8 word list"
  created_at :: time
  run_at :: time
  finished_at :: "time option"
  error_count :: "32 word"
  last_error :: "string option"
  updated_at :: "time option"

record pg =
  gue_jobs :: "64 word \<rightharpoonup> row"
  gue_jobs_finished :: "64 word \<rightharpoonup> row"
  committed :: bool
  faults :: "error option list"

text \<open>
  A \<^verbatim>\<open>pgtype.Text\<close> argument is NULL when its status is \<open>Null\<close>, its string when
  \<open>Present\<close>, and cannot be encoded when \<open>Undefined\<close>.
\<close>

fun sql_text :: "Text \<Rightarrow> error + string option" where
  "sql_text t =
     (case Status t of
        Undefined \<Rightarrow> Inl (Err ''cannot encode status undefined'')
      | Null \<Rightarrow> Inr None
      | Present \<Rightarrow> Inr (Some (String t)))"

text \<open>
  The statements on the tables. An \<^verbatim>\<open>UPDATE\<close> or \<^verbatim>\<open>DELETE\<close> whose \<^verbatim>\<open>WHERE\<close> matches no
  row succeeds and changes nothing; an \<^verbatim>\<open>INSERT\<close> of a key that is present violates the
  primary key.
\<close>

fun sql :: "stmt \<Rightarrow> pg \<Rightarrow> error + pg" where
  "sql (DeleteJob i) db = Inr (db\<lparr>gue_jobs := (gue_jobs db)(i := None)\<rparr>)"
| "sql (SetFinishedAt ts i) db =
     Inr (db\<lparr>gue_jobs := (gue_jobs db)
            (i := map_option (\<lambda>r. r\<lparr>finished_at := Some ts\<rparr>) (gue_jobs db i))\<rparr>)"
| "sql (InsertFinished i ty q a p ra ec le ca ua fa) db =
     (case sql_text le of
        Inl e \<Rightarrow> Inl e
      | Inr le' \<Rightarrow>
          if gue_jobs_finished db i \<noteq> None
          then Inl (Err ''duplicate key value violates unique constraint'')
          else Inr (db\<lparr>gue_jobs_finished := (gue_jobs_finished db)
                 (i \<mapsto> \<lparr>priority = p, job_type = ty, queue = q, args = a, created_at = ca,
                        run_at = ra, finished_at = Some fa, error_count = ec,
                        last_error = le', updated_at = Some ua\<rparr>)\<rparr>))"
| "sql (UpdateError ec ra msg now i) db =
     Inr (db\<lparr>gue_jobs := (gue_jobs db)
            (i := map_option
                    (\<lambda>r. r\<lparr>error_count := ec, run_at := ra, last_error := Some msg,
                           updated_at := Some now\<rparr>)
                    (gue_jobs db i))\<rparr>)"

definition pg_Exec :: "stmt \<Rightarrow> pg \<Rightarrow> error option \<times> pg" where
  "pg_Exec s db =
     (case faults db of
        Some e # fs \<Rightarrow> (Some e, db\<lparr>faults := fs\<rparr>)
      | _ \<Rightarrow>
          (let db' = db\<lparr>faults := tl (faults db)\<rparr> in
           case sql s db' of
             Inl e \<Rightarrow> (Some e, db')
           | Inr db'' \<Rightarrow> (None, db'')))"

definition pg_Commit :: "pg \<Rightarrow> error option \<times> pg" where
  "pg_Commit db =
     (case faults db of
        Some e # fs \<Rightarrow> (Some e, db\<lparr>faults := fs\<rparr>)
      | _ \<Rightarrow> (None, db\<lparr>faults := tl (faults db), committed := True\<rparr>))"

definition postgres :: "pg driver" where
  "postgres = \<lparr>Exec = pg_Exec, Commit = pg_Commit\<rparr>"

text \<open>
  Modelled from the spec: the predicate of the lock query, which is in the client and
  not in \<^verbatim>\<open>job.go\<close>. Section 6.2 gives it as \<^verbatim>\<open>WHERE queue = $1 AND run_at <= now()\<close>:
  a row can be dispatched to a worker of queue \<open>q\<close> at time \<open>T\<close> only if it satisfies it.
\<close>

definition eligible :: "string \<Rightarrow> time \<Rightarrow> row \<Rightarrow> bool" where
  "eligible q T r = (queue r = q \<and> run_at r \<le> T)"

subsection \<open>Notions used to state the properties\<close>

text \<open>The calls that end a transaction.\<close>

fun ends_tx :: "event \<Rightarrow> bool" where
  "ends_tx (TxCommit r) = True"
| "ends_tx (TxRollback r) = True"
| "ends_tx e = False"


text \<open>
  A trace is guarded when every call on the transaction happens while the mutex is held;
  \<open>held\<close> is the state of the mutex before the first event. Every method is entered with
  the mutex free.
\<close>

fun guarded_from :: "bool \<Rightarrow> event list \<Rightarrow> bool" where
  "guarded_from held [] = True"
| "guarded_from held (MuLock # es) = guarded_from True es"
| "guarded_from held (MuUnlock # es) = guarded_from False es"
| "guarded_from held (e # es) = (held \<and> guarded_from held es)"

definition guarded :: "event list \<Rightarrow> bool" where
  "guarded es = guarded_from False es"


text \<open>
  Two concrete jobs, each with the row it was read from and its transaction before any
  call (\<open>fs\<close> are the faults to come). Job 7 of queue \<open>q\<close> has failed twice, the last
  time at 90, and is locked with backoff \<open>30 * retries\<close>. Job 8 is locked for its first
  attempt: it has never failed and never been updated, so \<^verbatim>\<open>last_error\<close> and
  \<^verbatim>\<open>updated_at\<close> are NULL, which \<^verbatim>\<open>sql.NullTime\<close> holds as the zero time, not valid.
\<close>

definition job0 :: Job where
  "job0 = \<lparr>ID = 7, Queue = ''q'', Priority = 0, RunAt = 100, Type = ''mail'',
     Args = [123, 125], ErrorCount = 2, LastError = \<lparr>String = ''boom'', Status = Present\<rparr>,
     CreatedAt = 50, UpdatedAt = \<lparr>Time = 90, Valid = True\<rparr>,
     FinishedAt = \<lparr>Time = 0, Valid = False\<rparr>, finished = False, deleted = False,
     pool = Some 1, tx = Some 1, backoff = (\<lambda>n. 30 * n)\<rparr>"

definition row0 :: row where
  "row0 = \<lparr>priority = 0, job_type = ''mail'', queue = ''q'', args = [123, 125],
     created_at = 50, run_at = 100, finished_at = None, error_count = 2,
     last_error = Some ''boom'', updated_at = Some 90\<rparr>"

definition world0 :: "error option list \<Rightarrow> pg world" where
  "world0 fs = \<lparr>trace = [], conn = \<lparr>gue_jobs = [7 \<mapsto> row0], gue_jobs_finished = Map.empty,
     committed = False, faults = fs\<rparr>\<rparr>"

definition job1 :: Job where
  "job1 = \<lparr>ID = 8, Queue = ''q'', Priority = 0, RunAt = 100, Type = ''mail'',
     Args = [123, 125], ErrorCount = 0, LastError = \<lparr>String = [], Status = Null\<rparr>,
     CreatedAt = 50, UpdatedAt = \<lparr>Time = 0, Valid = False\<rparr>,
     FinishedAt = \<lparr>Time = 0, Valid = False\<rparr>, finished = False, deleted = False,
     pool = Some 2, tx = Some 2, backoff = (\<lambda>n. 30 * n)\<rparr>"

definition row1 :: row where
  "row1 = \<lparr>priority = 0, job_type = ''mail'', queue = ''q'', args = [123, 125],
     created_at = 50, run_at = 100, finished_at = None, error_count = 0,
     last_error = None, updated_at = None\<rparr>"

definition world1 :: "pg world" where
  "world1 = \<lparr>trace = [], conn = \<lparr>gue_jobs = [8 \<mapsto> row1], gue_jobs_finished = Map.empty,
     committed = False, faults = []\<rparr>\<rparr>"

section \<open>Properties\<close>

subsection \<open>Shared facts\<close>

lemmas method_defs = Delete_def Finished_def Migrate_def Done_def Error_def Tx_def
  tx_Exec_def tx_Commit_def emit_def Let_def UTC_def Add_def

lemmas pg_defs = postgres_def pg_Exec_def pg_Commit_def

lemmas example_defs = job0_def row0_def world0_def job1_def row1_def world1_def
  postgres_def pg_Exec_def pg_Commit_def

text \<open>Below the largest 32-bit value the increment of the error count does not wrap.\<close>

lemma sint_succ_32:
  fixes n :: "32 word"
  assumes "sint n < 2147483647"
  shows "sint (n + 1) = sint n + 1"
proof -
  have lo: "- 2147483648 \<le> sint n"
    using sint_ge [of n] by simp
  have "sint (n + 1) = signed_take_bit 31 (sint n + 1)"
    by (simp add: sint_word_ariths)
  also have "\<dots> = sint n + 1"
    using lo assms by (intro signed_take_bit_int_eq_self) simp_all
  finally show ?thesis .
qed

text \<open>\<^verbatim>\<open>Done\<close> on a job that holds both references, and on one that lacks either.\<close>

lemma Done_locked:
  assumes "tx j = Some t" "pool j = Some p" "Commit drv (conn w) = (r, c)"
  shows "Done drv j w =
          (r, (if r = None then j\<lparr>pool := None, tx := None\<rparr> else j),
           \<lparr>trace = trace w @ [MuLock, TxCommit r, MuUnlock], conn = c\<rparr>)"
  using assms by (cases r) (simp_all add: method_defs)


text \<open>
  \<^verbatim>\<open>Error\<close> on a job with a transaction: the update, then \<^verbatim>\<open>Done\<close> on the world the
  update left.
\<close>

lemma Error_eq:
  assumes "tx j = Some t"
    and "Exec drv (UpdateError (ErrorCount j + 1)
            (clock + backoff j (sint (ErrorCount j + 1))) msg clock (ID j)) (conn w) = (r1, c1)"
  shows "Error drv clock msg j w =
           (case Done drv j
                   \<lparr>trace = trace w @ [TxExec (UpdateError (ErrorCount j + 1)
                       (clock + backoff j (sint (ErrorCount j + 1))) msg clock (ID j)) r1],
                    conn = c1\<rparr> of
              (doneErr, j', w2) \<Rightarrow>
                (Return (case doneErr of None \<Rightarrow> r1 | Some de \<Rightarrow> Some (Errorf_done r1 de)),
                 j', w2))"
  using assms
  by (cases w; cases "Done drv j
                   \<lparr>trace = trace w @ [TxExec (UpdateError (ErrorCount j + 1)
                       (clock + backoff j (sint (ErrorCount j + 1))) msg clock (ID j)) r1],
                    conn = c1\<rparr>")
     (simp add: Error_def tx_Exec_def emit_def Let_def UTC_def Add_def split: option.splits)

text \<open>What the three methods that execute one statement do, by the answer of the driver.\<close>

lemma Delete_eq:
  assumes "tx j = Some t" "\<not> deleted j" "Exec drv (DeleteJob (ID j)) (conn w) = (r, c)"
  shows "Delete drv j w =
           (Return r, (if r = None then j\<lparr>deleted := True\<rparr> else j),
            \<lparr>trace = trace w @ [MuLock, TxExec (DeleteJob (ID j)) r, MuUnlock], conn = c\<rparr>)"
  using assms by (cases r) (simp_all add: method_defs)

lemma Finished_eq:
  assumes "tx j = Some t" "\<not> finished j" "Exec drv (SetFinishedAt clock (ID j)) (conn w) = (r, c)"
  shows "Finished drv clock j w =
           (Return r,
            (if r = None then j\<lparr>FinishedAt := \<lparr>Time = clock, Valid = True\<rparr>, finished := True\<rparr>
             else j),
            \<lparr>trace = trace w @ [MuLock, TxExec (SetFinishedAt clock (ID j)) r, MuUnlock],
             conn = c\<rparr>)"
  using assms by (cases r) (simp_all add: method_defs)

lemma Migrate_eq:
  assumes "tx j = Some t" "finished j"
    and "Exec drv (InsertFinished (ID j) (Type j) (Queue j) (Args j) (Priority j) (RunAt j)
           (ErrorCount j) (LastError j) (CreatedAt j) (Time (UpdatedAt j))
           (Time (FinishedAt j))) (conn w) = (r, c)"
  shows "Migrate drv j w =
           (Return r, j,
            \<lparr>trace = trace w @
               [MuLock,
                TxExec (InsertFinished (ID j) (Type j) (Queue j) (Args j) (Priority j) (RunAt j)
                  (ErrorCount j) (LastError j) (CreatedAt j) (Time (UpdatedAt j))
                  (Time (FinishedAt j))) r,
                MuUnlock],
             conn = c\<rparr>)"
  using assms by (cases r) (simp_all add: method_defs)

lemma Delete_again:
  "deleted j \<Longrightarrow> Delete drv j w = (Return None, j, w\<lparr>trace := trace w @ [MuLock, MuUnlock]\<rparr>)"
  by (simp add: method_defs)

lemma Finished_again:
  "finished j \<Longrightarrow>
     Finished drv clock j w = (Return None, j, w\<lparr>trace := trace w @ [MuLock, MuUnlock]\<rparr>)"
  by (simp add: method_defs)

lemma Migrate_not_finished:
  "\<not> finished j \<Longrightarrow>
     Migrate drv j w = (Return None, j, w\<lparr>trace := trace w @ [MuLock, MuUnlock]\<rparr>)"
  by (simp add: method_defs)

text \<open>The job after \<^verbatim>\<open>Done\<close> and after \<^verbatim>\<open>Error\<close>: unchanged, or without its references.\<close>

lemma Done_job:
  "fst (snd (Done drv j w)) = j \<or> fst (snd (Done drv j w)) = j\<lparr>pool := None, tx := None\<rparr>"
  by (simp add: Done_def tx_Commit_def Let_def split: prod.splits option.splits)

lemma Error_job:
  "\<exists>w1. fst (snd (Error drv clock msg j w)) = fst (snd (Done drv j w1))"
proof (cases "tx j")
  case None
  then have "fst (snd (Error drv clock msg j w)) = fst (snd (Done drv j w))"
    by (cases "Done drv j w") (simp add: Error_def Let_def)
  then show ?thesis ..
next
  case (Some t)
  let ?s = "UpdateError (ErrorCount j + 1)
            (clock + backoff j (sint (ErrorCount j + 1))) msg clock (ID j)"
  obtain r1 c1 where x: "Exec drv ?s (conn w) = (r1, c1)"
    by (cases "Exec drv ?s (conn w)")
  let ?w1 = "\<lparr>trace = trace w @ [TxExec ?s r1], conn = c1\<rparr>"
  have "fst (snd (Error drv clock msg j w)) = fst (snd (Done drv j ?w1))"
    by (cases "Done drv j ?w1") (simp add: Error_eq [OF Some x])
  then show ?thesis ..
qed

lemma Error_statement:
  assumes "tx j = Some t"
  shows "\<exists>res es. trace (snd (snd (Error drv clock msg j w))) =
            trace w @ TxExec (UpdateError (ErrorCount j + 1)
              (clock + backoff j (sint (ErrorCount j + 1))) msg clock (ID j)) res # es"
proof -
  let ?s = "UpdateError (ErrorCount j + 1)
              (clock + backoff j (sint (ErrorCount j + 1))) msg clock (ID j)"
  obtain r1 c1 where x: "Exec drv ?s (conn w) = (r1, c1)"
    by (cases "Exec drv ?s (conn w)")
  let ?w1 = "\<lparr>trace = trace w @ [TxExec ?s r1], conn = c1\<rparr>"
  have "\<exists>es. trace (snd (snd (Done drv j ?w1))) = trace ?w1 @ es"
    by (simp add: Done_def tx_Commit_def emit_def Let_def split: prod.splits option.splits)
  then obtain es where "trace (snd (snd (Done drv j ?w1))) = trace ?w1 @ es" ..
  then have "trace (snd (snd (Error drv clock msg j w))) = trace w @ TxExec ?s r1 # es"
    by (cases "Done drv j ?w1") (simp add: Error_eq [OF assms x])
  then show ?thesis by blast
qed






text \<open>
  Every method but \<^verbatim>\<open>Error\<close> calls the transaction only between taking and releasing
  the mutex.
\<close>

lemma others_guarded:
  "guarded (drop (length (trace w)) (trace (snd (snd (Delete drv j w)))))"
  "guarded (drop (length (trace w)) (trace (snd (snd (Finished drv clock j w)))))"
  "guarded (drop (length (trace w)) (trace (snd (snd (Migrate drv j w)))))"
  "guarded (drop (length (trace w)) (trace (snd (snd (Done drv j w)))))"
  "guarded (drop (length (trace w)) (trace (snd (Tx j w))))"
  by (simp_all add: method_defs guarded_def split: prod.splits option.splits)

subsection \<open>Error\<close>

text \<open>
  Claim C1. For a locked job with stored error count \<open>n\<close>, \<^verbatim>\<open>Error(msg)\<close> executes the
  update of the job's row with \<open>error_count = n + 1\<close>, \<open>run_at = now + backoff (n + 1)\<close>,
  \<open>last_error = msg\<close> and \<open>updated_at = now\<close>, and then always calls \<^verbatim>\<open>Done\<close>, which
  attempts the commit under the mutex, whatever the update returned. When the commit
  succeeds the error of the update (or nil) is returned and the references are nil; when
  it fails the returned error wraps the commit's error and carries the text of the
  update's error in its message. The count is incremented in 32 bits and passed to the
  backoff as its signed value: below the largest 32-bit value that is \<open>n + 1\<close> on the
  integers.
\<close>

theorem Error_updates_then_Done:
  assumes "tx j = Some t" and "pool j = Some p"
    and "Exec drv (UpdateError (ErrorCount j + 1)
            (clock + backoff j (sint (ErrorCount j + 1))) msg clock (ID j)) (conn w) = (r1, c1)"
    and "Commit drv c1 = (r2, c2)"
  shows "Error drv clock msg j w =
           (Return (case r2 of None \<Rightarrow> r1 | Some doneErr \<Rightarrow> Some (Errorf_done r1 doneErr)),
            (if r2 = None then j\<lparr>pool := None, tx := None\<rparr> else j),
            \<lparr>trace = trace w @
               [TxExec (UpdateError (ErrorCount j + 1)
                  (clock + backoff j (sint (ErrorCount j + 1))) msg clock (ID j)) r1,
                MuLock, TxCommit r2, MuUnlock],
             conn = c2\<rparr>)
       \<and> (\<forall>doneErr. Unwrap (Errorf_done r1 doneErr) = Some doneErr
            \<and> Error_text (Errorf_done r1 doneErr) =
                ''failed to mark job as done (original error: '' @ fmt_v r1 @ ''): ''
                @ Error_text doneErr)
       \<and> (sint (ErrorCount j) < 2147483647 \<longrightarrow>
            sint (ErrorCount j + 1) = sint (ErrorCount j) + 1)"
  using assms by (cases r2) (simp_all add: method_defs Errorf_done_def sint_succ_32)

text \<open>
  At job 7 both calls fail: the update with \<open>net\<close>, the commit with \<open>closed\<close>. The
  returned error wraps \<open>closed\<close> and names \<open>net\<close>; the job keeps its references.
\<close>

theorem Error_updates_then_Done_witness:
  "tx job0 = Some 1 \<and> pool job0 = Some 1
   \<and> Error postgres 1000 ''late'' job0 (world0 [Some (Err ''net''), Some (Err ''closed'')]) =
       (Return (Some (WrapError ''failed to mark job as done (original error: net): closed''
                       (Err ''closed''))),
        job0,
        \<lparr>trace = [TxExec (UpdateError 3 1090 ''late'' 1000 7) (Some (Err ''net'')), MuLock,
                  TxCommit (Some (Err ''closed'')), MuUnlock],
         conn = \<lparr>gue_jobs = [7 \<mapsto> row0], gue_jobs_finished = Map.empty, committed = False,
                 faults = []\<rparr>\<rparr>)"
  using Error_updates_then_Done [of job0 1 1 postgres 1000 "''late''"
      "world0 [Some (Err ''net''), Some (Err ''closed'')]" "Some (Err ''net'')"
      "\<lparr>gue_jobs = [7 \<mapsto> row0], gue_jobs_finished = Map.empty, committed = False,
        faults = [Some (Err ''closed'')]\<rparr>"
      "Some (Err ''closed'')"
      "\<lparr>gue_jobs = [7 \<mapsto> row0], gue_jobs_finished = Map.empty, committed = False,
        faults = []\<rparr>"]
  by (simp add: example_defs Errorf_done_def)

text \<open>
  Claim C2. When an attempt fails at time \<open>t\<close> with error count \<open>n\<close>, the \<open>run_at\<close> that
  \<^verbatim>\<open>Error\<close> writes is \<open>t + backoff (n + 1)\<close>: it is the second argument of the update,
  whatever the driver. On the reference tables, when \<^verbatim>\<open>Error\<close> returns nil (the update and
  the commit went through) the committed row of the job carries that \<open>run_at\<close>, so every
  time at which the lock query can select the row is at least \<open>t + backoff (n + 1)\<close>. The
  argument of the backoff is the signed value of the 32-bit \<open>n + 1\<close>, which is \<open>n + 1\<close>
  below the largest 32-bit value.
\<close>

theorem Error_run_at_backoff:
  assumes "tx j = Some h"
  shows "(\<exists>res es. trace (snd (snd (Error drv t msg j w))) =
            trace w @ TxExec (UpdateError (ErrorCount j + 1)
              (t + backoff j (sint (ErrorCount j + 1))) msg t (ID j)) res # es)
       \<and> (pool j = Some p \<longrightarrow> gue_jobs (conn wp) (ID j) = Some r \<longrightarrow>
            Error postgres t msg j wp = (Return None, j', wp') \<longrightarrow>
              committed (conn wp')
              \<and> gue_jobs (conn wp') (ID j) =
                  Some (r\<lparr>error_count := ErrorCount j + 1,
                          run_at := t + backoff j (sint (ErrorCount j + 1)),
                          last_error := Some msg, updated_at := Some t\<rparr>)
              \<and> (\<forall>r' q T. gue_jobs (conn wp') (ID j) = Some r' \<longrightarrow> eligible q T r' \<longrightarrow>
                    t + backoff j (sint (ErrorCount j + 1)) \<le> T))
       \<and> (sint (ErrorCount j) < 2147483647 \<longrightarrow>
            sint (ErrorCount j + 1) = sint (ErrorCount j) + 1)"
proof (intro conjI impI)
  show "\<exists>res es. trace (snd (snd (Error drv t msg j w))) =
            trace w @ TxExec (UpdateError (ErrorCount j + 1)
              (t + backoff j (sint (ErrorCount j + 1))) msg t (ID j)) res # es"
    using assms by (rule Error_statement)
next
  assume p: "pool j = Some p" and r: "gue_jobs (conn wp) (ID j) = Some r"
    and e: "Error postgres t msg j wp = (Return None, j', wp')"
  let ?r' = "r\<lparr>error_count := ErrorCount j + 1,
                run_at := t + backoff j (sint (ErrorCount j + 1)),
                last_error := Some msg, updated_at := Some t\<rparr>"
  from assms p r e
  have c: "committed (conn wp')" and g: "gue_jobs (conn wp') (ID j) = Some ?r'"
    by (auto simp add: method_defs postgres_def pg_Exec_def pg_Commit_def
        split: prod.splits option.splits list.splits sum.splits if_splits)
  show "committed (conn wp')" by (rule c)
  show "gue_jobs (conn wp') (ID j) = Some ?r'" by (rule g)
  show "\<forall>r' q T. gue_jobs (conn wp') (ID j) = Some r' \<longrightarrow> eligible q T r' \<longrightarrow>
          t + backoff j (sint (ErrorCount j + 1)) \<le> T"
    using g by (auto simp add: eligible_def)
next
  assume "sint (ErrorCount j) < 2147483647"
  then show "sint (ErrorCount j + 1) = sint (ErrorCount j) + 1"
    by (rule sint_succ_32)
qed

text \<open>Job 7 fails at time 1000 with count 2 and backoff \<open>30 * 3\<close>: the row is due at 1090.\<close>

theorem Error_run_at_backoff_witness:
  "tx job0 = Some 1 \<and> pool job0 = Some 1 \<and> gue_jobs (conn (world0 [])) (ID job0) = Some row0
   \<and> Error postgres 1000 ''late'' job0 (world0 []) =
        (Return None, job0\<lparr>pool := None, tx := None\<rparr>,
         \<lparr>trace = [TxExec (UpdateError 3 1090 ''late'' 1000 7) None, MuLock, TxCommit None,
                   MuUnlock],
          conn = \<lparr>gue_jobs = [7 \<mapsto> row0\<lparr>error_count := 3, run_at := 1090,
                     last_error := Some ''late'', updated_at := Some 1000\<rparr>],
                  gue_jobs_finished = Map.empty, committed = True, faults = []\<rparr>\<rparr>)
   \<and> eligible ''q'' 1090 (row0\<lparr>error_count := 3, run_at := 1090,
                     last_error := Some ''late'', updated_at := Some 1000\<rparr>)
   \<and> (1000 :: int) + backoff job0 (sint (ErrorCount job0 + 1)) \<le> 1090
   \<and> sint (ErrorCount job0) < 2147483647 \<and> sint (ErrorCount job0 + 1) = 3"
  using Error_run_at_backoff [of job0 1 postgres 1000 "''late''" "world0 []" 1 "world0 []" row0
      "job0\<lparr>pool := None, tx := None\<rparr>"
      "\<lparr>trace = [TxExec (UpdateError 3 1090 ''late'' 1000 7) None, MuLock, TxCommit None,
                   MuUnlock],
          conn = \<lparr>gue_jobs = [7 \<mapsto> row0\<lparr>error_count := 3, run_at := 1090,
                     last_error := Some ''late'', updated_at := Some 1000\<rparr>],
                  gue_jobs_finished = Map.empty, committed = True, faults = []\<rparr>\<rparr>"]
  by (simp add: example_defs method_defs eligible_def)

text \<open>
  At the largest 32-bit count the increment wraps, as Go's \<^verbatim>\<open>int32\<close> addition does: the
  count written is the smallest 32-bit value and the backoff is asked for that number of
  retries.
\<close>

lemma Error_count_wraps:
  "trace (snd (snd (Error postgres 1000 ''late'' (job0\<lparr>ErrorCount := 2147483647\<rparr>) (world0 [])))) =
     [TxExec (UpdateError (- 2147483648) (1000 + 30 * (- 2147483648)) ''late'' 1000 7) None,
      MuLock, TxCommit None, MuUnlock]"
  by (simp add: example_defs method_defs)

subsection \<open>What Error leaves in memory\<close>

text \<open>
  Claim C9. \<^verbatim>\<open>Error\<close> leaves the fields \<open>ErrorCount\<close> and \<open>LastError\<close> of the job as they
  were read at lock time, whatever the transaction answers: the job it returns is the
  job it got, or that job with \<open>pool\<close> and \<open>tx\<close> nil. The incremented count and the new
  message go to the database only, as arguments of the update.
\<close>

theorem Error_keeps_memory:
  "ErrorCount (fst (snd (Error drv clock msg j w))) = ErrorCount j
   \<and> LastError (fst (snd (Error drv clock msg j w))) = LastError j
   \<and> (fst (snd (Error drv clock msg j w)) = j
      \<or> fst (snd (Error drv clock msg j w)) = j\<lparr>pool := None, tx := None\<rparr>)
   \<and> (tx j \<noteq> None \<longrightarrow>
        (\<exists>res es. trace (snd (snd (Error drv clock msg j w))) =
            trace w @ TxExec (UpdateError (ErrorCount j + 1)
              (clock + backoff j (sint (ErrorCount j + 1))) msg clock (ID j)) res # es))"
proof -
  obtain w1 where "fst (snd (Error drv clock msg j w)) = fst (snd (Done drv j w1))"
    using Error_job by blast
  then have j': "fst (snd (Error drv clock msg j w)) = j
      \<or> fst (snd (Error drv clock msg j w)) = j\<lparr>pool := None, tx := None\<rparr>"
    using Done_job [of drv j w1] by simp
  then have "ErrorCount (fst (snd (Error drv clock msg j w))) = ErrorCount j"
    and "LastError (fst (snd (Error drv clock msg j w))) = LastError j"
    by auto
  then show ?thesis
    using j' Error_statement [of j _ drv clock msg w] by auto
qed

text \<open>Job 7 keeps count 2 and message \<open>boom\<close>; its row gets count 3 and \<open>late\<close>.\<close>

theorem Error_keeps_memory_witness:
  "tx job0 \<noteq> None
   \<and> ErrorCount (fst (snd (Error postgres 1000 ''late'' job0 (world0 [])))) = 2
   \<and> LastError (fst (snd (Error postgres 1000 ''late'' job0 (world0 [])))) =
        \<lparr>String = ''boom'', Status = Present\<rparr>
   \<and> gue_jobs (conn (snd (snd (Error postgres 1000 ''late'' job0 (world0 []))))) 7 =
        Some (row0\<lparr>error_count := 3, run_at := 1090, last_error := Some ''late'',
                   updated_at := Some 1000\<rparr>)"
  using Error_keeps_memory [of postgres 1000 "''late''" job0 "world0 []"]
  by (simp add: example_defs method_defs)

subsection \<open>Who ends the transaction\<close>

text \<open>
  Claim C3. On a locked job \<^verbatim>\<open>Delete\<close> and \<^verbatim>\<open>Finished\<close> (and \<^verbatim>\<open>Migrate\<close> and \<^verbatim>\<open>Tx\<close>)
  call neither \<^verbatim>\<open>Commit\<close> nor \<^verbatim>\<open>Rollback\<close> and leave both references in place for a
  later \<^verbatim>\<open>Done\<close>; \<^verbatim>\<open>Error\<close> commits, and its commit is the one that its call of
  \<^verbatim>\<open>Done\<close> issues after the update; \<^verbatim>\<open>Done\<close> itself calls \<^verbatim>\<open>Commit\<close>.
\<close>

theorem only_Done_commits:
  assumes "tx j = Some t" and "pool j = Some p"
    and "Exec drv (UpdateError (ErrorCount j + 1)
            (clock + backoff j (sint (ErrorCount j + 1))) msg clock (ID j)) (conn w) = (r1, c1)"
    and "Commit drv c1 = (r2, c2)"
    and "Commit drv (conn w) = (r3, c3)"
  shows "(case Delete drv j w of
            (r, j', w') \<Rightarrow>
              (\<exists>es. trace w' = trace w @ es \<and> (\<forall>e \<in> set es. \<not> ends_tx e))
              \<and> tx j' = Some t \<and> pool j' = Some p
              \<and> conn w' = (if deleted j then conn w
                            else snd (Exec drv (DeleteJob (ID j)) (conn w))))
       \<and> (case Finished drv clock j w of
            (r, j', w') \<Rightarrow>
              (\<exists>es. trace w' = trace w @ es \<and> (\<forall>e \<in> set es. \<not> ends_tx e))
              \<and> tx j' = Some t \<and> pool j' = Some p
              \<and> conn w' = (if finished j then conn w
                            else snd (Exec drv (SetFinishedAt clock (ID j)) (conn w))))
       \<and> (case Migrate drv j w of
            (r, j', w') \<Rightarrow>
              (\<exists>es. trace w' = trace w @ es \<and> (\<forall>e \<in> set es. \<not> ends_tx e))
              \<and> tx j' = Some t \<and> pool j' = Some p
              \<and> conn w' =
                  (if finished j
                   then snd (Exec drv
                          (InsertFinished (ID j) (Type j) (Queue j) (Args j) (Priority j)
                             (RunAt j) (ErrorCount j) (LastError j) (CreatedAt j)
                             (Time (UpdatedAt j)) (Time (FinishedAt j))) (conn w))
                   else conn w))
       \<and> (case Tx j w of
            (r, w') \<Rightarrow>
              (\<exists>es. trace w' = trace w @ es \<and> (\<forall>e \<in> set es. \<not> ends_tx e))
              \<and> conn w' = conn w)
       \<and> (case Error drv clock msg j w of
            (r, j', w') \<Rightarrow>
              w' = \<lparr>trace = trace w @
                      [TxExec (UpdateError (ErrorCount j + 1)
                         (clock + backoff j (sint (ErrorCount j + 1))) msg clock (ID j)) r1,
                       MuLock, TxCommit r2, MuUnlock],
                    conn = c2\<rparr>
              \<and> j' = (if r2 = None then j\<lparr>pool := None, tx := None\<rparr> else j)
              \<and> Done drv j
                    \<lparr>trace = trace w @
                       [TxExec (UpdateError (ErrorCount j + 1)
                          (clock + backoff j (sint (ErrorCount j + 1))) msg clock (ID j)) r1],
                     conn = c1\<rparr> = (r2, j', w'))
       \<and> Done drv j w =
            (r3, (if r3 = None then j\<lparr>pool := None, tx := None\<rparr> else j),
             \<lparr>trace = trace w @ [MuLock, TxCommit r3, MuUnlock], conn = c3\<rparr>)"
proof (intro conjI)
  show "case Delete drv j w of
            (r, j', w') \<Rightarrow>
              (\<exists>es. trace w' = trace w @ es \<and> (\<forall>e \<in> set es. \<not> ends_tx e))
              \<and> tx j' = Some t \<and> pool j' = Some p
              \<and> conn w' = (if deleted j then conn w
                            else snd (Exec drv (DeleteJob (ID j)) (conn w)))"
  proof (cases "deleted j")
    case True
    then show ?thesis using assms(1,2) by (simp add: Delete_again)
  next
    case False
    obtain r c where "Exec drv (DeleteJob (ID j)) (conn w) = (r, c)"
      by (cases "Exec drv (DeleteJob (ID j)) (conn w)")
    then show ?thesis
      using assms(1,2) False by (simp add: Delete_eq [OF assms(1) False])
  qed
  show "case Finished drv clock j w of
            (r, j', w') \<Rightarrow>
              (\<exists>es. trace w' = trace w @ es \<and> (\<forall>e \<in> set es. \<not> ends_tx e))
              \<and> tx j' = Some t \<and> pool j' = Some p
              \<and> conn w' = (if finished j then conn w
                            else snd (Exec drv (SetFinishedAt clock (ID j)) (conn w)))"
  proof (cases "finished j")
    case True
    then show ?thesis using assms(1,2) by (simp add: Finished_again)
  next
    case False
    obtain r c where "Exec drv (SetFinishedAt clock (ID j)) (conn w) = (r, c)"
      by (cases "Exec drv (SetFinishedAt clock (ID j)) (conn w)")
    then show ?thesis
      using assms(1,2) False by (simp add: Finished_eq [OF assms(1) False])
  qed
  show "case Migrate drv j w of
            (r, j', w') \<Rightarrow>
              (\<exists>es. trace w' = trace w @ es \<and> (\<forall>e \<in> set es. \<not> ends_tx e))
              \<and> tx j' = Some t \<and> pool j' = Some p
              \<and> conn w' =
                  (if finished j
                   then snd (Exec drv
                          (InsertFinished (ID j) (Type j) (Queue j) (Args j) (Priority j)
                             (RunAt j) (ErrorCount j) (LastError j) (CreatedAt j)
                             (Time (UpdatedAt j)) (Time (FinishedAt j))) (conn w))
                   else conn w)"
  proof (cases "finished j")
    case False
    then show ?thesis using assms(1,2) by (simp add: Migrate_not_finished)
  next
    case True
    let ?s = "InsertFinished (ID j) (Type j) (Queue j) (Args j) (Priority j) (RunAt j)
           (ErrorCount j) (LastError j) (CreatedAt j) (Time (UpdatedAt j))
           (Time (FinishedAt j))"
    obtain r c where "Exec drv ?s (conn w) = (r, c)"
      by (cases "Exec drv ?s (conn w)")
    then show ?thesis
      using assms(1,2) True by (simp add: Migrate_eq [OF assms(1) True])
  qed
  show "case Tx j w of
            (r, w') \<Rightarrow>
              (\<exists>es. trace w' = trace w @ es \<and> (\<forall>e \<in> set es. \<not> ends_tx e))
              \<and> conn w' = conn w"
    by (simp add: Tx_def emit_def)
  let ?s = "UpdateError (ErrorCount j + 1)
            (clock + backoff j (sint (ErrorCount j + 1))) msg clock (ID j)"
  let ?w1 = "\<lparr>trace = trace w @ [TxExec ?s r1], conn = c1\<rparr>"
  let ?j2 = "if r2 = None then j\<lparr>pool := None, tx := None\<rparr> else j"
  let ?w2 = "\<lparr>trace = trace w @ [TxExec ?s r1, MuLock, TxCommit r2, MuUnlock], conn = c2\<rparr>"
  have d: "Done drv j ?w1 = (r2, ?j2, ?w2)"
    using Done_locked [OF assms(1,2), of drv ?w1 r2 c2] assms(4) by simp
  have e: "Error drv clock msg j w =
          (Return (case r2 of None \<Rightarrow> r1 | Some de \<Rightarrow> Some (Errorf_done r1 de)), ?j2, ?w2)"
    unfolding Error_eq [OF assms(1,3)] d by simp
  show "case Error drv clock msg j w of
            (r, j', w') \<Rightarrow>
              w' = ?w2 \<and> j' = ?j2 \<and> Done drv j ?w1 = (r2, j', w')"
    unfolding e using d by (simp only: prod.case simp_thms)
  show "Done drv j w =
            (r3, (if r3 = None then j\<lparr>pool := None, tx := None\<rparr> else j),
             \<lparr>trace = trace w @ [MuLock, TxCommit r3, MuUnlock], conn = c3\<rparr>)"
    by (rule Done_locked [OF assms(1,2,5)])
qed

text \<open>
  Job 7 on the reference tables: after \<^verbatim>\<open>Delete\<close> and after \<^verbatim>\<open>Finished\<close> the transaction is
  not committed and the job keeps its references; after \<^verbatim>\<open>Error\<close> and after \<^verbatim>\<open>Done\<close> it
  is committed and the references are nil.
\<close>

theorem only_Done_commits_witness:
  "tx job0 = Some 1 \<and> pool job0 = Some 1
   \<and> Delete postgres job0 (world0 []) =
        (Return None, job0\<lparr>deleted := True\<rparr>,
         \<lparr>trace = [MuLock, TxExec (DeleteJob 7) None, MuUnlock],
          conn = \<lparr>gue_jobs = Map.empty, gue_jobs_finished = Map.empty, committed = False,
                  faults = []\<rparr>\<rparr>)
   \<and> Finished postgres 500 job0 (world0 []) =
        (Return None, job0\<lparr>FinishedAt := \<lparr>Time = 500, Valid = True\<rparr>, finished := True\<rparr>,
         \<lparr>trace = [MuLock, TxExec (SetFinishedAt 500 7) None, MuUnlock],
          conn = \<lparr>gue_jobs = [7 \<mapsto> row0\<lparr>finished_at := Some 500\<rparr>],
                  gue_jobs_finished = Map.empty, committed = False, faults = []\<rparr>\<rparr>)
   \<and> Error postgres 500 ''late'' job0 (world0 []) =
        (Return None, job0\<lparr>pool := None, tx := None\<rparr>,
         \<lparr>trace = [TxExec (UpdateError 3 590 ''late'' 500 7) None, MuLock, TxCommit None,
                   MuUnlock],
          conn = \<lparr>gue_jobs = [7 \<mapsto> row0\<lparr>error_count := 3, run_at := 590,
                     last_error := Some ''late'', updated_at := Some 500\<rparr>],
                  gue_jobs_finished = Map.empty, committed = True, faults = []\<rparr>\<rparr>)
   \<and> Done postgres job0 (world0 []) =
        (None, job0\<lparr>pool := None, tx := None\<rparr>,
         \<lparr>trace = [MuLock, TxCommit None, MuUnlock],
          conn = \<lparr>gue_jobs = [7 \<mapsto> row0], gue_jobs_finished = Map.empty, committed = True,
                  faults = []\<rparr>\<rparr>)"
  using only_Done_commits [where j = job0 and t = 1 and p = 1 and drv = postgres
      and w = "world0 []" and clock = 500 and msg = "''late''" and ?r1.0 = None
      and ?c1.0 = "\<lparr>gue_jobs = [7 \<mapsto> row0\<lparr>error_count := 3, run_at := 590,
                     last_error := Some ''late'', updated_at := Some 500\<rparr>],
                  gue_jobs_finished = Map.empty, committed = False, faults = []\<rparr>"
      and ?r2.0 = None
      and ?c2.0 = "\<lparr>gue_jobs = [7 \<mapsto> row0\<lparr>error_count := 3, run_at := 590,
                     last_error := Some ''late'', updated_at := Some 500\<rparr>],
                  gue_jobs_finished = Map.empty, committed = True, faults = []\<rparr>"
      and ?r3.0 = None
      and ?c3.0 = "\<lparr>gue_jobs = [7 \<mapsto> row0], gue_jobs_finished = Map.empty, committed = True,
                  faults = []\<rparr>"]
  by (simp add: example_defs method_defs)

subsection \<open>Done\<close>



subsection \<open>Failures\<close>

text \<open>
  Claim C10. A failing operation leaves the job in memory as it was. When the statement
  returns an error, \<^verbatim>\<open>Delete\<close> and \<^verbatim>\<open>Finished\<close> (and \<^verbatim>\<open>Migrate\<close>) return that error and
  the job unchanged, flags included. When \<^verbatim>\<open>Commit\<close> returns an error, \<^verbatim>\<open>Done\<close> returns
  it and keeps \<open>tx\<close> and \<open>pool\<close>, so that a later \<^verbatim>\<open>Done\<close> on the same job calls
  \<^verbatim>\<open>Commit\<close> again.
\<close>

theorem failure_keeps_state:
  assumes "tx j = Some t"
  shows "(\<not> deleted j \<longrightarrow> Exec drv (DeleteJob (ID j)) (conn w) = (Some e, c) \<longrightarrow>
            Delete drv j w =
              (Return (Some e), j,
               \<lparr>trace = trace w @ [MuLock, TxExec (DeleteJob (ID j)) (Some e), MuUnlock],
                conn = c\<rparr>))
       \<and> (\<not> finished j \<longrightarrow> Exec drv (SetFinishedAt clock (ID j)) (conn w) = (Some e, c) \<longrightarrow>
            Finished drv clock j w =
              (Return (Some e), j,
               \<lparr>trace = trace w @ [MuLock, TxExec (SetFinishedAt clock (ID j)) (Some e), MuUnlock],
                conn = c\<rparr>))
       \<and> (finished j \<longrightarrow>
            Exec drv (InsertFinished (ID j) (Type j) (Queue j) (Args j) (Priority j) (RunAt j)
              (ErrorCount j) (LastError j) (CreatedAt j) (Time (UpdatedAt j))
              (Time (FinishedAt j))) (conn w) = (Some e, c) \<longrightarrow>
            fst (Migrate drv j w) = Return (Some e) \<and> fst (snd (Migrate drv j w)) = j)
       \<and> (pool j = Some p \<longrightarrow> Commit drv (conn w) = (Some e, c) \<longrightarrow>
            Done drv j w =
              (Some e, j, \<lparr>trace = trace w @ [MuLock, TxCommit (Some e), MuUnlock], conn = c\<rparr>)
            \<and> (\<forall>w2 r2 c2. Commit drv (conn w2) = (r2, c2) \<longrightarrow>
                  (\<exists>j2. Done drv j w2 =
                     (r2, j2,
                      \<lparr>trace = trace w2 @ [MuLock, TxCommit r2, MuUnlock], conn = c2\<rparr>))))"
proof (intro conjI impI allI)
  assume "\<not> deleted j" and "Exec drv (DeleteJob (ID j)) (conn w) = (Some e, c)"
  then show "Delete drv j w =
              (Return (Some e), j,
               \<lparr>trace = trace w @ [MuLock, TxExec (DeleteJob (ID j)) (Some e), MuUnlock],
                conn = c\<rparr>)"
    by (simp add: Delete_eq [OF assms])
next
  assume "\<not> finished j" and "Exec drv (SetFinishedAt clock (ID j)) (conn w) = (Some e, c)"
  then show "Finished drv clock j w =
              (Return (Some e), j,
               \<lparr>trace = trace w @ [MuLock, TxExec (SetFinishedAt clock (ID j)) (Some e), MuUnlock],
                conn = c\<rparr>)"
    by (simp add: Finished_eq [OF assms])
next
  assume "finished j"
    and "Exec drv (InsertFinished (ID j) (Type j) (Queue j) (Args j) (Priority j) (RunAt j)
              (ErrorCount j) (LastError j) (CreatedAt j) (Time (UpdatedAt j))
              (Time (FinishedAt j))) (conn w) = (Some e, c)"
  then show "fst (Migrate drv j w) = Return (Some e)" and "fst (snd (Migrate drv j w)) = j"
    by (simp_all add: Migrate_eq [OF assms])
next
  assume "pool j = Some p" and "Commit drv (conn w) = (Some e, c)"
  then show "Done drv j w =
              (Some e, j, \<lparr>trace = trace w @ [MuLock, TxCommit (Some e), MuUnlock], conn = c\<rparr>)"
    by (simp add: Done_locked [OF assms])
next
  fix w2 :: "'a world" and r2 c2
  assume "pool j = Some p" and "Commit drv (conn w2) = (r2, c2)"
  then show "\<exists>j2. Done drv j w2 =
                     (r2, j2,
                      \<lparr>trace = trace w2 @ [MuLock, TxCommit r2, MuUnlock], conn = c2\<rparr>)"
    by (simp add: Done_locked [OF assms])
qed

text \<open>
  Job 7 on a connection whose next call fails with \<open>net\<close>: each method returns the
  error and the job as it was; \<^verbatim>\<open>Done\<close> called again commits.
\<close>

theorem failure_keeps_state_witness:
  "tx job0 = Some 1 \<and> pool job0 = Some 1 \<and> \<not> deleted job0 \<and> \<not> finished job0
   \<and> Delete postgres job0 (world0 [Some (Err ''net'')]) =
       (Return (Some (Err ''net'')), job0,
        \<lparr>trace = [MuLock, TxExec (DeleteJob 7) (Some (Err ''net'')), MuUnlock],
         conn = conn (world0 [])\<rparr>)
   \<and> Finished postgres 500 job0 (world0 [Some (Err ''net'')]) =
       (Return (Some (Err ''net'')), job0,
        \<lparr>trace = [MuLock, TxExec (SetFinishedAt 500 7) (Some (Err ''net'')), MuUnlock],
         conn = conn (world0 [])\<rparr>)
   \<and> Done postgres job0 (world0 [Some (Err ''net'')]) =
       (Some (Err ''net''), job0,
        \<lparr>trace = [MuLock, TxCommit (Some (Err ''net'')), MuUnlock], conn = conn (world0 [])\<rparr>)
   \<and> Done postgres job0
        \<lparr>trace = [MuLock, TxCommit (Some (Err ''net'')), MuUnlock], conn = conn (world0 [])\<rparr> =
       (None, job0\<lparr>pool := None, tx := None\<rparr>,
        \<lparr>trace = [MuLock, TxCommit (Some (Err ''net'')), MuUnlock, MuLock, TxCommit None,
                  MuUnlock],
         conn = (conn (world0 []))\<lparr>committed := True\<rparr>\<rparr>)"
  using failure_keeps_state [where j = job0 and t = 1 and p = 1 and drv = postgres
      and w = "world0 [Some (Err ''net'')]" and e = "Err ''net''" and c = "conn (world0 [])"
      and clock = 500]
  by (simp add: example_defs method_defs)

text \<open>
  \<^verbatim>\<open>Error\<close> is different by design: it commits whatever its update returned. On job 7,
  when the update fails with \<open>net\<close> and the commit succeeds, \<^verbatim>\<open>Error\<close> returns \<open>net\<close>
  and the job has lost both references.
\<close>

lemma Error_failed_update_still_commits:
  "Error postgres 1000 ''late'' job0 (world0 [Some (Err ''net'')]) =
     (Return (Some (Err ''net'')), job0\<lparr>pool := None, tx := None\<rparr>,
      \<lparr>trace = [TxExec (UpdateError 3 1090 ''late'' 1000 7) (Some (Err ''net'')), MuLock,
                TxCommit None, MuUnlock],
       conn = (conn (world0 []))\<lparr>committed := True\<rparr>\<rparr>)"
  by (simp add: example_defs method_defs)

subsection \<open>Finished\<close>

text \<open>
  Claim C6. On a locked job that is not marked finished, \<^verbatim>\<open>Finished\<close> executes the update
  of \<^verbatim>\<open>finished_at\<close> to the current time for the job's id; when the update returns nil it
  sets the flag \<open>finished\<close> and sets \<open>FinishedAt\<close> to the same time, valid. A second call
  on the job so marked returns nil and calls nothing on the transaction. On the
  reference tables a successful call changes the job's row to carry
  \<open>finished_at = now\<close> and nothing else.
\<close>

theorem Finished_sets_finished_at:
  assumes "tx j = Some t" and "\<not> finished j"
    and "Exec drv (SetFinishedAt clock (ID j)) (conn w) = (r, c)"
  shows "Finished drv clock j w =
           (Return r,
            (if r = None
             then j\<lparr>FinishedAt := \<lparr>Time = clock, Valid = True\<rparr>, finished := True\<rparr>
             else j),
            \<lparr>trace = trace w @ [MuLock, TxExec (SetFinishedAt clock (ID j)) r, MuUnlock],
             conn = c\<rparr>)
       \<and> (\<forall>clock' w'.
            Finished drv clock' (j\<lparr>FinishedAt := \<lparr>Time = clock, Valid = True\<rparr>, finished := True\<rparr>) w' =
              (Return None,
               j\<lparr>FinishedAt := \<lparr>Time = clock, Valid = True\<rparr>, finished := True\<rparr>,
               w'\<lparr>trace := trace w' @ [MuLock, MuUnlock]\<rparr>))
       \<and> (\<forall>wp r0 j' wp'.
            Finished postgres clock j wp = (Return None, j', wp') \<longrightarrow>
            gue_jobs (conn wp) (ID j) = Some r0 \<longrightarrow>
              gue_jobs (conn wp') = (gue_jobs (conn wp))(ID j \<mapsto> r0\<lparr>finished_at := Some clock\<rparr>)
              \<and> gue_jobs_finished (conn wp') = gue_jobs_finished (conn wp)
              \<and> committed (conn wp') = committed (conn wp))"
proof (intro conjI allI impI)
  show "Finished drv clock j w =
           (Return r,
            (if r = None
             then j\<lparr>FinishedAt := \<lparr>Time = clock, Valid = True\<rparr>, finished := True\<rparr>
             else j),
            \<lparr>trace = trace w @ [MuLock, TxExec (SetFinishedAt clock (ID j)) r, MuUnlock],
             conn = c\<rparr>)"
    by (rule Finished_eq [OF assms])
next
  fix clock' and w' :: "'a world"
  show "Finished drv clock' (j\<lparr>FinishedAt := \<lparr>Time = clock, Valid = True\<rparr>, finished := True\<rparr>) w' =
              (Return None,
               j\<lparr>FinishedAt := \<lparr>Time = clock, Valid = True\<rparr>, finished := True\<rparr>,
               w'\<lparr>trace := trace w' @ [MuLock, MuUnlock]\<rparr>)"
    by (simp add: Finished_again)
next
  fix wp r0 j' wp'
  assume f: "Finished postgres clock j wp = (Return None, j', wp')"
    and r: "gue_jobs (conn wp) (ID j) = Some r0"
  obtain e cp where x: "Exec postgres (SetFinishedAt clock (ID j)) (conn wp) = (e, cp)"
    by (cases "Exec postgres (SetFinishedAt clock (ID j)) (conn wp)")
  from f have e: "e = None" and wp': "conn wp' = cp"
    by (auto simp add: Finished_eq [OF assms(1,2) x])
  from x e r have
    "gue_jobs cp = (gue_jobs (conn wp))(ID j \<mapsto> r0\<lparr>finished_at := Some clock\<rparr>)
     \<and> gue_jobs_finished cp = gue_jobs_finished (conn wp)
     \<and> committed cp = committed (conn wp)"
    by (auto simp add: pg_defs split: list.splits option.splits)
  then show "gue_jobs (conn wp') = (gue_jobs (conn wp))(ID j \<mapsto> r0\<lparr>finished_at := Some clock\<rparr>)"
    and "gue_jobs_finished (conn wp') = gue_jobs_finished (conn wp)"
    and "committed (conn wp') = committed (conn wp)"
    by (simp_all add: wp')
qed

text \<open>Job 7 finished at time 500, and \<^verbatim>\<open>Finished\<close> called again at time 600.\<close>

theorem Finished_sets_finished_at_witness:
  "tx job0 = Some 1 \<and> \<not> finished job0
   \<and> Finished postgres 500 job0 (world0 []) =
       (Return None, job0\<lparr>FinishedAt := \<lparr>Time = 500, Valid = True\<rparr>, finished := True\<rparr>,
        \<lparr>trace = [MuLock, TxExec (SetFinishedAt 500 7) None, MuUnlock],
         conn = \<lparr>gue_jobs = [7 \<mapsto> row0\<lparr>finished_at := Some 500\<rparr>],
                 gue_jobs_finished = Map.empty, committed = False, faults = []\<rparr>\<rparr>)
   \<and> Finished postgres 600
        (job0\<lparr>FinishedAt := \<lparr>Time = 500, Valid = True\<rparr>, finished := True\<rparr>)
        \<lparr>trace = [MuLock, TxExec (SetFinishedAt 500 7) None, MuUnlock],
         conn = \<lparr>gue_jobs = [7 \<mapsto> row0\<lparr>finished_at := Some 500\<rparr>],
                 gue_jobs_finished = Map.empty, committed = False, faults = []\<rparr>\<rparr> =
       (Return None, job0\<lparr>FinishedAt := \<lparr>Time = 500, Valid = True\<rparr>, finished := True\<rparr>,
        \<lparr>trace = [MuLock, TxExec (SetFinishedAt 500 7) None, MuUnlock, MuLock, MuUnlock],
         conn = \<lparr>gue_jobs = [7 \<mapsto> row0\<lparr>finished_at := Some 500\<rparr>],
                 gue_jobs_finished = Map.empty, committed = False, faults = []\<rparr>\<rparr>)"
  using Finished_sets_finished_at [where j = job0 and t = 1 and drv = postgres and clock = 500
      and w = "world0 []" and r = None
      and c = "\<lparr>gue_jobs = [7 \<mapsto> row0\<lparr>finished_at := Some 500\<rparr>],
                 gue_jobs_finished = Map.empty, committed = False, faults = []\<rparr>"]
  by (simp add: example_defs)

subsection \<open>Delete\<close>

text \<open>
  Claim C7. On a locked job that is not marked deleted, \<^verbatim>\<open>Delete\<close> executes the delete of
  the row with the job's id; when it returns nil the flag \<open>deleted\<close> is set. A second call
  on the job so marked returns nil and calls nothing on the transaction. On the
  reference tables a successful call removes the row with the job's id and no other.
\<close>

theorem Delete_deletes_row:
  assumes "tx j = Some t" and "\<not> deleted j"
    and "Exec drv (DeleteJob (ID j)) (conn w) = (r, c)"
  shows "Delete drv j w =
           (Return r, (if r = None then j\<lparr>deleted := True\<rparr> else j),
            \<lparr>trace = trace w @ [MuLock, TxExec (DeleteJob (ID j)) r, MuUnlock], conn = c\<rparr>)
       \<and> (\<forall>w'. Delete drv (j\<lparr>deleted := True\<rparr>) w' =
              (Return None, j\<lparr>deleted := True\<rparr>, w'\<lparr>trace := trace w' @ [MuLock, MuUnlock]\<rparr>))
       \<and> (\<forall>wp j' wp'.
            Delete postgres j wp = (Return None, j', wp') \<longrightarrow>
              gue_jobs (conn wp') = (gue_jobs (conn wp))(ID j := None)
              \<and> gue_jobs_finished (conn wp') = gue_jobs_finished (conn wp)
              \<and> committed (conn wp') = committed (conn wp))"
proof (intro conjI allI impI)
  show "Delete drv j w =
           (Return r, (if r = None then j\<lparr>deleted := True\<rparr> else j),
            \<lparr>trace = trace w @ [MuLock, TxExec (DeleteJob (ID j)) r, MuUnlock], conn = c\<rparr>)"
    by (rule Delete_eq [OF assms])
next
  fix w' :: "'a world"
  show "Delete drv (j\<lparr>deleted := True\<rparr>) w' =
              (Return None, j\<lparr>deleted := True\<rparr>, w'\<lparr>trace := trace w' @ [MuLock, MuUnlock]\<rparr>)"
    by (simp add: Delete_again)
next
  fix wp j' wp'
  assume d: "Delete postgres j wp = (Return None, j', wp')"
  obtain e cp where x: "Exec postgres (DeleteJob (ID j)) (conn wp) = (e, cp)"
    by (cases "Exec postgres (DeleteJob (ID j)) (conn wp)")
  from d have e: "e = None" and wp': "conn wp' = cp"
    by (auto simp add: Delete_eq [OF assms(1,2) x])
  from x e have
    "gue_jobs cp = (gue_jobs (conn wp))(ID j := None)
     \<and> gue_jobs_finished cp = gue_jobs_finished (conn wp)
     \<and> committed cp = committed (conn wp)"
    by (auto simp add: pg_defs split: list.splits option.splits)
  then show "gue_jobs (conn wp') = (gue_jobs (conn wp))(ID j := None)"
    and "gue_jobs_finished (conn wp') = gue_jobs_finished (conn wp)"
    and "committed (conn wp') = committed (conn wp)"
    by (simp_all add: wp')
qed

text \<open>Job 7 deleted, and \<^verbatim>\<open>Delete\<close> called again.\<close>

theorem Delete_deletes_row_witness:
  "tx job0 = Some 1 \<and> \<not> deleted job0
   \<and> Delete postgres job0 (world0 []) =
       (Return None, job0\<lparr>deleted := True\<rparr>,
        \<lparr>trace = [MuLock, TxExec (DeleteJob 7) None, MuUnlock],
         conn = \<lparr>gue_jobs = Map.empty, gue_jobs_finished = Map.empty, committed = False,
                 faults = []\<rparr>\<rparr>)
   \<and> Delete postgres (job0\<lparr>deleted := True\<rparr>)
        \<lparr>trace = [MuLock, TxExec (DeleteJob 7) None, MuUnlock],
         conn = \<lparr>gue_jobs = Map.empty, gue_jobs_finished = Map.empty, committed = False,
                 faults = []\<rparr>\<rparr> =
       (Return None, job0\<lparr>deleted := True\<rparr>,
        \<lparr>trace = [MuLock, TxExec (DeleteJob 7) None, MuUnlock, MuLock, MuUnlock],
         conn = \<lparr>gue_jobs = Map.empty, gue_jobs_finished = Map.empty, committed = False,
                 faults = []\<rparr>\<rparr>)"
  using Delete_deletes_row [where j = job0 and t = 1 and drv = postgres and w = "world0 []"
      and r = None and c = "\<lparr>gue_jobs = Map.empty, gue_jobs_finished = Map.empty, committed = False,
                 faults = []\<rparr>"]
  by (simp add: example_defs)

subsection \<open>Migrate\<close>

text \<open>
  Claim C5 says that \<^verbatim>\<open>Migrate\<close> copies every column of a finished job to the archive
  table. It passes \<^verbatim>\<open>j.UpdatedAt.Time.UTC()\<close>, without looking at \<^verbatim>\<open>j.UpdatedAt.Valid\<close>.
  Job 8 was never updated: its row has \<^verbatim>\<open>updated_at\<close> NULL and the job an \<open>UpdatedAt\<close>
  that is not valid. After \<^verbatim>\<open>Finished\<close> at time 500 and \<^verbatim>\<open>Migrate\<close>, both successful, the
  row of \<^verbatim>\<open>gue_jobs\<close> still has \<^verbatim>\<open>updated_at\<close> NULL and the row of \<^verbatim>\<open>gue_jobs_finished\<close>
  has the zero time instead; the other columns agree.
\<close>

theorem Migrate_null_updated_at:
  "\<not> Valid (UpdatedAt job1) \<and> updated_at row1 = None
   \<and> (case Finished postgres 500 job1 world1 of
        (r1, j1, w1) \<Rightarrow>
          (case Migrate postgres j1 w1 of
             (r2, j2, w2) \<Rightarrow>
               r1 = Return None \<and> r2 = Return None
               \<and> gue_jobs (conn w2) 8 = Some (row1\<lparr>finished_at := Some 500\<rparr>)
               \<and> gue_jobs_finished (conn w2) 8 =
                   Some (row1\<lparr>finished_at := Some 500, updated_at := Some 0\<rparr>)))"
  by (simp add: example_defs method_defs)

subsection \<open>The mutex\<close>

text \<open>
  Claim C8 says that every operation takes the job's mutex before it uses the
  transaction. \<^verbatim>\<open>Error\<close> does not: on job 7 its first event is the call of \<^verbatim>\<open>Exec\<close> on
  \<open>j.tx\<close>, and the mutex is taken only afterwards, inside \<^verbatim>\<open>Done\<close>. The trace is not
  guarded. (The traces of the other five methods are: \<open>others_guarded\<close>.)
\<close>

theorem Error_calls_Exec_unlocked:
  "trace (snd (snd (Error postgres 1000 ''late'' job0 (world0 [])))) =
     [TxExec (UpdateError 3 1090 ''late'' 1000 7) None, MuLock, TxCommit None, MuUnlock]
   \<and> \<not> guarded (trace (snd (snd (Error postgres 1000 ''late'' job0 (world0 [])))))"
  by (simp add: example_defs method_defs guarded_def)

end
